theory Spec2Isabelle
  imports Complex_Main
begin

section \<open>Data model of \<open>refactored_cameras.py\<close>\<close>

text \<open>
  Python integers are modelled as \<^typ>\<open>int\<close>. A Python float is modelled as the
  \<^typ>\<open>real\<close> number it stands for; the rounding of float arithmetic is made explicit
  where the planner computes. Every exception the source can raise is a value of \<open>error\<close>.
\<close>

datatype error =
    TypeError
  | NotImplementedError
  | AttributeError
  | ZeroDivisionError
  | IndexError
  | ValueError

type_synonym xyz = "real \<times> real \<times> real"

text \<open>A frame buffer of shape \<open>(rows, columns, 3)\<close>: a list of rows of triplets.\<close>

type_synonym frame_buffer = "xyz list list"

text \<open>
  The attributes that \<open>Camera.__init__\<close> assigns and that the sampling pipeline reads or
  writes (the three ray limits and \<open>display_update_time\<close> are left out).
  \<^item> \<open>pixels\<close> is the shape \<open>(nx, ny)\<close> of \<open>self._pixels\<close>. Line 53 creates
    \<open>self._pixels\<close> as \<open>np.empty(pixels, dtype=object)\<close>, an array of \<open>nx\<close> rows of \<open>ny\<close>
    entries that are all \<open>None\<close>; no line of the file assigns an entry or rebinds the
    attribute, and the property \<open>pixels\<close> refuses assignment (line 69).
  \<^item> \<open>root_is_World\<close> is the value of \<open>isinstance(self.root, World)\<close>.

  There is no attribute \<open>rays\<close>: no line of the file assigns \<open>self.rays\<close>, so reading it
  raises \<open>AttributeError\<close>.
\<close>

record camera =
  spectral_rays :: int
  spectral_samples :: int
  min_wavelength :: real
  max_wavelength :: real
  display_progress :: bool
  process_count :: int
  pixels :: "nat \<times> nat"
  sensitivity :: real
  pixel_samples :: int
  accumulate :: bool
  accumulated_samples :: int
  xyz_frame :: frame_buffer
  frame :: frame_buffer
  root_is_World :: bool

text \<open>\<open>numpy.zeros((rows, cols, 3))\<close> for two integers.\<close>

definition zeros :: "nat \<Rightarrow> nat \<Rightarrow> frame_buffer" where
  "zeros rows cols = replicate rows (replicate cols (0, 0, 0))"

text \<open>\<open>range(n)\<close> for a Python integer \<open>n\<close>: empty when \<open>n \<le> 0\<close>.\<close>

definition py_range :: "int \<Rightarrow> nat list" where
  "py_range n = [0..<nat n]"

text \<open>
  \<open>self._pixels[k]\<close>: row \<open>k\<close> of the object array, given by its length, or \<open>IndexError\<close>
  when the array has no such row.
\<close>

definition pixels_row :: "'a camera_scheme \<Rightarrow> nat \<Rightarrow> error + nat" where
  "pixels_row c k = (if k < fst (pixels c) then Inr (snd (pixels c)) else Inl IndexError)"

section \<open>Float arithmetic\<close>

text \<open>
  A float operation returns the exact result, rounded. The rounding is a parameter \<open>rnd\<close> of
  the planner: \<open>exact\<close> gives exact arithmetic, \<open>double_round\<close> the arithmetic of the
  code. Overflow to infinity, subnormal results and NaN are outside the model.

  \<open>double_round\<close> rounds to the nearest number with a significand of 53 bits, ties to the
  even significand, as binary64 does for results in its normal range. \<open>binade fuel a\<close> is
  the exponent \<open>e\<close> with \<open>2 ^ e \<le> a < 2 ^ (e + 1)\<close>, found in at most \<open>fuel\<close> steps.
\<close>

definition pow2 :: "int \<Rightarrow> real" where
  "pow2 e = (if 0 \<le> e then 2 ^ nat e else 1 / 2 ^ nat (- e))"

fun binade :: "nat \<Rightarrow> real \<Rightarrow> int" where
  "binade 0 a = 0"
| "binade (Suc fuel) a =
     (if 2 \<le> a then binade fuel (a / 2) + 1
      else if a < 1 then binade fuel (a * 2) - 1
      else 0)"

definition round_half_even :: "real \<Rightarrow> int" where
  "round_half_even q =
     (let f = \<lfloor>q\<rfloor>; d = q - of_int f
      in if d < 1 / 2 then f else if 1 / 2 < d then f + 1 else if even f then f else f + 1)"

definition double_round :: "real \<Rightarrow> real" where
  "double_round x =
     (if x = 0 then 0
      else (let a = \<bar>x\<bar>; u = pow2 (binade 2200 a - 52)
            in sgn x * of_int (round_half_even (a / u)) * u))"

definition exact :: "real \<Rightarrow> real" where
  "exact x = x"

section \<open>Spectral channel planner\<close>

text \<open>A channel as line 272 builds it: \<open>(min_wavelength, max_wavelength, spectral_samples)\<close>.\<close>

type_synonym wvl_channel = "real \<times> real \<times> int"

definition ch_min :: "wvl_channel \<Rightarrow> real" where
  "ch_min ch = fst ch"

definition ch_max :: "wvl_channel \<Rightarrow> real" where
  "ch_max ch = fst (snd ch)"

definition ch_samples :: "wvl_channel \<Rightarrow> int" where
  "ch_samples ch = snd (snd ch)"

text \<open>
  \<open>Camera._calc_wvl_channel_config\<close>. The division by \<open>self.spectral_rays\<close> raises
  \<open>ZeroDivisionError\<close> when it is zero; a negative count gives an empty \<open>range\<close>. Every
  subtraction, division, product and sum is rounded, and so is the conversion of an integer
  operand to a float.
\<close>

definition calc_wvl_channel_config ::
  "(real \<Rightarrow> real) \<Rightarrow> 'a camera_scheme \<Rightarrow> error + wvl_channel list" where
  "calc_wvl_channel_config rnd c =
     (if spectral_rays c = 0 then Inl ZeroDivisionError
      else
        let delta_wavelength =
              rnd (rnd (max_wavelength c - min_wavelength c) / rnd (of_int (spectral_rays c)))
        in Inr (map (\<lambda>index.
                       (rnd (min_wavelength c + rnd (delta_wavelength * rnd (of_nat index))),
                        rnd (min_wavelength c + rnd (delta_wavelength * rnd (of_nat (index + 1)))),
                        spectral_samples c))
                    (py_range (spectral_rays c))))"

text \<open>The channels planned for a camera, none when the planner raises.\<close>

definition channel_plan :: "(real \<Rightarrow> real) \<Rightarrow> 'a camera_scheme \<Rightarrow> wvl_channel list" where
  "channel_plan rnd c = (case calc_wvl_channel_config rnd c of Inl err \<Rightarrow> [] | Inr chs \<Rightarrow> chs)"

section \<open>Construction\<close>

text \<open>
  \<open>Camera.__init__\<close>. The arguments are stored as they are given: the constructor has no
  check on \<open>spectral_rays\<close>, \<open>pixel_samples\<close> or \<open>process_count\<close>. The frame buffers are
  \<open>zeros((pixels[1], pixels[0], 3))\<close> of the argument \<open>pixels\<close>, a pair of integers. The
  argument \<open>parent_in_World\<close> stands for a \<open>parent\<close> node whose root is a \<open>World\<close>. The
  result type has an error branch so that a rejection could be expressed; no path of the
  source takes it.
\<close>

definition Camera_init ::
  "nat \<times> nat \<Rightarrow> real \<Rightarrow> int \<Rightarrow> int \<Rightarrow> int \<Rightarrow> int \<Rightarrow> bool \<Rightarrow> error + camera" where
  "Camera_init pixels_arg sensitivity_arg spectral_samples_arg spectral_rays_arg
               pixel_samples_arg process_count_arg parent_in_World =
     Inr \<lparr> spectral_rays = spectral_rays_arg,
           spectral_samples = spectral_samples_arg,
           min_wavelength = 375,
           max_wavelength = 740,
           display_progress = True,
           process_count = process_count_arg,
           pixels = pixels_arg,
           sensitivity = sensitivity_arg,
           pixel_samples = pixel_samples_arg,
           accumulate = False,
           accumulated_samples = 0,
           xyz_frame = zeros (snd pixels_arg) (fst pixels_arg),
           frame = zeros (snd pixels_arg) (fst pixels_arg),
           root_is_World = parent_in_World \<rparr>"

section \<open>Pinhole camera\<close>

record pinhole_camera = camera +
  fov :: real
  sub_sample :: bool

text \<open>
  \<open>PinholeCamera.__init__\<close>. Line 376 calls \<open>Camera.__init__\<close> with the keyword \<open>rays\<close>, a
  parameter that \<open>Camera.__init__\<close> does not have: the call raises \<open>TypeError\<close> for every
  argument, before any attribute is assigned.
\<close>

definition PinholeCamera_init ::
  "nat \<times> nat \<Rightarrow> real \<Rightarrow> real \<Rightarrow> int \<Rightarrow> int \<Rightarrow> int \<Rightarrow> bool \<Rightarrow> int \<Rightarrow> bool
     \<Rightarrow> error + pinhole_camera" where
  "PinholeCamera_init pixels_arg fov_arg sensitivity_arg spectral_samples_arg rays_arg
                      pixel_samples_arg sub_sample_arg process_count_arg parent_in_World =
     Inl TypeError"

text \<open>
  \<open>PinholeCamera._setup_pixel_config\<close>, on the attributes that lines 53 to 61, 380 and 381
  assign. \<open>max(self._pixels)\<close> iterates over the rows of the object array.
  \<^item> With no row, \<open>max\<close> of an empty sequence raises \<open>ValueError\<close>.
  \<^item> With entries in the rows, \<open>max\<close> compares two rows, or line 397 compares the single
    row with \<open>1\<close>: either compares \<open>None\<close> and raises \<open>TypeError\<close>.
  \<^item> With rows of no entry the comparisons give empty arrays, whose truth value numpy
    either refuses with an error or takes as false. The parameter \<open>empty_truth\<close> is that
    error, or \<open>None\<close> where the value is false; then the \<open>else\<close> branch of line 409 returns.

  Lines 400 to 407 are reached in no case. \<open>to_root\<close> stands for the transform
  \<open>self.to_root()\<close> applied to a point.
\<close>

definition setup_pixel_config ::
  "error option \<Rightarrow> (xyz \<Rightarrow> xyz) \<Rightarrow> 'a pinhole_camera_scheme
     \<Rightarrow> error + (xyz \<times> real \<times> real \<times> real)" where
  "setup_pixel_config empty_truth to_root c =
     (if fst (pixels c) = 0 then Inl ValueError
      else if 0 < snd (pixels c) then Inl TypeError
      else (case empty_truth of
              Some err \<Rightarrow> Inl err
            | None \<Rightarrow> Inr (to_root (0, 0, 0), 0, 0, 0)))"

section \<open>External collaborators\<close>

text \<open>
  What the pipeline calls but does not define, taken as parameters:
  \<^item> \<open>rebuild_pixels\<close>: the override of \<open>_rebuild_pixels\<close> in a derived class. By its
    contract it writes only pixel geometry, which is not part of \<open>camera\<close>, so here it can
    only raise or return;
  \<^item> \<open>display\<close>: the method \<open>display()\<close>, which draws \<open>self.frame\<close> and may raise;
  \<^item> \<open>sample_pixel\<close>, the pixel-sampling contract, and the colour conversions
    \<open>resample_ciexyz\<close>, \<open>spectrum_to_ciexyz\<close> and \<open>ciexyz_to_srgb\<close>. They are listed to
    fix what a pass would call; no path of \<open>observe\<close> reaches them.
\<close>

record ('s, 'k) env =
  resample_ciexyz :: "real \<Rightarrow> real \<Rightarrow> int \<Rightarrow> 'k"
  spectrum_to_ciexyz :: "'s \<Rightarrow> 'k \<Rightarrow> xyz"
  ciexyz_to_srgb :: "xyz \<Rightarrow> xyz"
  sample_pixel :: "nat \<Rightarrow> nat \<Rightarrow> real \<Rightarrow> real \<Rightarrow> int \<Rightarrow> error + ('s \<times> int)"
  rebuild_pixels :: "camera \<Rightarrow> error option"
  display :: "camera \<Rightarrow> error option"

text \<open>\<open>Camera._rebuild_pixels\<close> itself: the virtual method always raises.\<close>

definition Camera_rebuild_pixels :: "camera \<Rightarrow> error option" where
  "Camera_rebuild_pixels c = Some NotImplementedError"

section \<open>The start of a pass\<close>

text \<open>\<open>Camera._start_display\<close>: calls \<open>display()\<close> when \<open>display_progress\<close> is set.\<close>

definition start_display :: "('s, 'k) env \<Rightarrow> camera \<Rightarrow> error option" where
  "start_display e c = (if display_progress c then display e c else None)"

text \<open>
  \<open>Camera._start_statistics\<close> never returns. Line 314 multiplies \<open>self._pixels[0]\<close> by
  \<open>self._pixels[1]\<close>: taking either row raises \<open>IndexError\<close> when the array has fewer than
  two rows, and the product of two rows multiplies \<open>None\<close> by \<open>None\<close>, a \<open>TypeError\<close>, unless
  the rows have no entry. In that last case line 315 reads \<open>self.rays\<close>, an
  \<open>AttributeError\<close>. The value is the exception raised.
\<close>

definition start_statistics :: "camera \<Rightarrow> error" where
  "start_statistics c =
     (case pixels_row c 0 of
        Inl err \<Rightarrow> err
      | Inr row0 \<Rightarrow>
          (case pixels_row c 1 of
             Inl err \<Rightarrow> err
           | Inr row1 \<Rightarrow> if 0 < row0 then TypeError else AttributeError))"

text \<open>
  Lines 89 to 91 never complete. Line 89 first takes \<open>self._pixels[1]\<close>, an \<open>IndexError\<close>
  when the array has fewer than two rows, and then calls \<open>zeros\<close> with two rows of the
  object array as dimensions, a \<open>TypeError\<close>. The call raises before the assignment, and
  lines 90 and 91 are not reached. The value is the exception raised.
\<close>

definition reset_frames :: "camera \<Rightarrow> error" where
  "reset_frames c =
     (case pixels_row c 1 of
        Inl err \<Rightarrow> err
      | Inr row1 \<Rightarrow> (case pixels_row c 0 of Inl err \<Rightarrow> err | Inr row0 \<Rightarrow> TypeError))"

section \<open>The two engines\<close>

text \<open>
  \<open>Camera._observe_single\<close> and \<open>Camera._observe_parallel\<close> both begin with
  \<open>_start_display()\<close> and \<open>_start_statistics()\<close>. As the second never returns, the weights,
  the scaling of the frame buffer, the loops over channels and pixels, the queues and the
  worker processes of lines 114 to 155 and 165 to 224 are not reached. The value is the
  exception raised.
\<close>

definition observe_single :: "('s, 'k) env \<Rightarrow> camera \<Rightarrow> wvl_channel list \<Rightarrow> error" where
  "observe_single e c wvl_channels =
     (case start_display e c of Some err \<Rightarrow> err | None \<Rightarrow> start_statistics c)"

definition observe_parallel :: "('s, 'k) env \<Rightarrow> camera \<Rightarrow> wvl_channel list \<Rightarrow> error" where
  "observe_parallel e c wvl_channels =
     (case start_display e c of Some err \<Rightarrow> err | None \<Rightarrow> start_statistics c)"

text \<open>
  \<open>Camera._producer\<close>, were it started: the exception it raises and the tasks it has put
  before. Line 228 unpacks the rows of \<open>self._pixels\<close> into two names, a \<open>ValueError\<close>
  unless there are exactly two rows; then \<open>range(ny)\<close> of a row raises \<open>TypeError\<close>.
  Nothing is put on the queue.
\<close>

definition producer :: "camera \<Rightarrow> error \<times> (nat \<times> nat) list" where
  "producer c = (if fst (pixels c) = 2 then (TypeError, []) else (ValueError, []))"

text \<open>An item of the task queue: a pixel location, or \<open>None\<close>.\<close>

datatype task = Pixel "nat \<times> nat" | Sentinel

text \<open>How a worker process ends: \<open>break\<close>, an exception, or waiting on an empty task queue.\<close>

datatype worker_end = Stopped | Died error | Waiting

text \<open>
  \<open>Camera._worker\<close>, were it started, on the items it takes from the task queue, in
  order. For a pixel it calls \<open>self._sample_pixel\<close>, a method that the class does not
  define: the worker ends with \<open>AttributeError\<close> and puts no result.
\<close>

fun worker :: "task list \<Rightarrow> worker_end" where
  "worker [] = Waiting"
| "worker (Sentinel # ts) = Stopped"
| "worker (Pixel loc # ts) = Died AttributeError"

section \<open>\<open>observe\<close>\<close>

text \<open>How a call ends: it returns or it raises.\<close>

datatype outcome = Done | Raised error

text \<open>
  \<open>Camera.observe\<close>: how the call ends, and the camera it leaves. The planner runs in the
  arithmetic of the code. Line 106, the update of \<open>accumulated_samples\<close>, follows the
  engines and is not reached.
\<close>

definition observe :: "('s, 'k) env \<Rightarrow> camera \<Rightarrow> outcome \<times> camera" where
  "observe e c =
     (if \<not> root_is_World c then (Raised TypeError, c)
      else if \<not> accumulate c then (Raised (reset_frames c), c)
      else
        (case calc_wvl_channel_config double_round c of
           Inl err \<Rightarrow> (Raised err, c)
         | Inr wvl_channels \<Rightarrow>
             (case rebuild_pixels e c of
                Some err \<Rightarrow> (Raised err, c)
              | None \<Rightarrow>
                  if process_count c = 1 then (Raised (observe_single e c wvl_channels), c)
                  else (Raised (observe_parallel e c wvl_channels), c))))"

section \<open>Cameras and stubs for the evaluations\<close>

text \<open>
  The camera that \<open>Camera(pixels=(2, 2), spectral_rays=1, pixel_samples=1, process_count=1)\<close>
  builds under a \<open>World\<close>.
\<close>

definition demo_camera :: camera where
  "demo_camera =
     \<lparr> spectral_rays = 1, spectral_samples = 20, min_wavelength = 375, max_wavelength = 740,
       display_progress = True, process_count = 1, pixels = (2, 2), sensitivity = 1,
       pixel_samples = 1, accumulate = False, accumulated_samples = 0,
       xyz_frame = zeros 2 2, frame = zeros 2 2, root_is_World = True \<rparr>"

text \<open>The same camera after the assignment \<open>accumulate = True\<close>.\<close>

definition progressive_camera :: camera where
  "progressive_camera = demo_camera\<lparr>accumulate := True\<rparr>"

text \<open>
  The same camera after a frame and a counter have been assigned that differ from those of
  construction, with and without progressive accumulation.
\<close>

definition dirty_camera :: camera where
  "dirty_camera =
     demo_camera\<lparr>xyz_frame := replicate 2 (replicate 2 (1, 2, 3)), accumulated_samples := 7\<rparr>"

definition dirty_progressive_camera :: camera where
  "dirty_progressive_camera = dirty_camera\<lparr>accumulate := True\<rparr>"

text \<open>A camera of one pixel, with a frame and a counter assigned likewise.\<close>

definition single_pixel_camera :: camera where
  "single_pixel_camera =
     demo_camera\<lparr>pixels := (1, 1), xyz_frame := [[(1, 2, 3)]], frame := [[(0, 0, 0)]],
       accumulated_samples := 7\<rparr>"

text \<open>
  A stub of the collaborators for a derived class that implements the geometry hook: the
  sampler returns the spectrum \<open>1\<close> with ten rays at every call, and \<open>display()\<close> returns.
  The second stub has the hook of \<open>Camera\<close> itself.
\<close>

definition demo_env :: "(real, real) env" where
  "demo_env =
     \<lparr> resample_ciexyz = (\<lambda>lo hi n. hi - lo),
       spectrum_to_ciexyz = (\<lambda>s k. (s, 2 * s, 3 * s)),
       ciexyz_to_srgb = (\<lambda>v. v),
       sample_pixel = (\<lambda>x y lo hi n. Inr (1, 10)),
       rebuild_pixels = (\<lambda>c. None),
       display = (\<lambda>c. None) \<rparr>"

definition base_env :: "(real, real) env" where
  "base_env = demo_env\<lparr>rebuild_pixels := Camera_rebuild_pixels\<rparr>"

text \<open>A camera whose wavelength range is \<open>[0, 1]\<close>, planned in 49 channels.\<close>

definition unit_camera :: camera where
  "unit_camera = demo_camera\<lparr>min_wavelength := 0, max_wavelength := 1, spectral_rays := 49\<rparr>"

text \<open>
  The attributes that \<open>PinholeCamera(pixels=(1, 1))\<close> would hold if its constructor
  returned.
\<close>

definition demo_pinhole :: pinhole_camera where
  "demo_pinhole =
     \<lparr> spectral_rays = 1, spectral_samples = 20, min_wavelength = 375, max_wavelength = 740,
       display_progress = True, process_count = 1, pixels = (1, 1), sensitivity = 1,
       pixel_samples = 100, accumulate = False, accumulated_samples = 0,
       xyz_frame = zeros 1 1, frame = zeros 1 1, root_is_World = True,
       fov = 45, sub_sample = False \<rparr>"

section \<open>Properties of the channel planner\<close>

lemma calc_wvl_channel_config_Inr:
  assumes "spectral_rays c \<noteq> 0"
  shows "calc_wvl_channel_config rnd c =
           Inr (map (\<lambda>index.
                       (rnd (min_wavelength c
                          + rnd (rnd (rnd (max_wavelength c - min_wavelength c)
                                        / rnd (of_int (spectral_rays c))) * rnd (of_nat index))),
                        rnd (min_wavelength c
                          + rnd (rnd (rnd (max_wavelength c - min_wavelength c)
                                        / rnd (of_int (spectral_rays c))) * rnd (of_nat (index + 1)))),
                        spectral_samples c))
                    [0..<nat (spectral_rays c)])"
  using assms by (simp add: calc_wvl_channel_config_def py_range_def Let_def)

lemma plan_in_any_arithmetic:
  assumes R: "1 \<le> spectral_rays c"
  shows "\<exists>chs. calc_wvl_channel_config rnd c = Inr chs
           \<and> int (length chs) = spectral_rays c
           \<and> (\<forall>i < length chs. ch_samples (chs ! i) = spectral_samples c)
           \<and> (\<forall>i. Suc i < length chs \<longrightarrow> ch_max (chs ! i) = ch_min (chs ! Suc i))
           \<and> ((\<forall>x y. x \<le> y \<longrightarrow> rnd x \<le> rnd y) \<and> rnd 0 = 0
                 \<and> min_wavelength c \<le> max_wavelength c \<longrightarrow>
               (\<forall>i j. i < j \<and> j < length chs \<longrightarrow> ch_max (chs ! i) \<le> ch_min (chs ! j)))"
proof -
  define n where "n = nat (spectral_rays c)"
  define d where
    "d = rnd (rnd (max_wavelength c - min_wavelength c) / rnd (of_int (spectral_rays c)))"
  define bound where "bound k = rnd (min_wavelength c + rnd (d * rnd (of_nat k)))" for k :: nat
  define chs where
    "chs = map (\<lambda>index. (bound index, bound (index + 1), spectral_samples c)) [0..<n]"
  have n_int: "int n = spectral_rays c"
    using R by (simp add: n_def)
  have cfg: "calc_wvl_channel_config rnd c = Inr chs"
    using R calc_wvl_channel_config_Inr [of c rnd] by (simp add: chs_def bound_def d_def n_def)
  have len: "length chs = n"
    by (simp add: chs_def)
  have nth: "chs ! i = (bound i, bound (i + 1), spectral_samples c)" if "i < n" for i
    using that by (simp add: chs_def)
  have samples: "ch_samples (chs ! i) = spectral_samples c" if "i < n" for i
    using nth [OF that] by (simp add: ch_samples_def)
  have contiguous: "ch_max (chs ! i) = ch_min (chs ! Suc i)" if "Suc i < n" for i
  proof -
    have "i < n" using that by simp
    then show ?thesis
      using nth [of i] nth [OF that] by (simp add: ch_min_def ch_max_def)
  qed
  have disjoint: "ch_max (chs ! i) \<le> ch_min (chs ! j)"
    if mono: "\<forall>x y. x \<le> y \<longrightarrow> rnd x \<le> rnd y" and zero: "rnd 0 = 0"
      and ordered: "min_wavelength c \<le> max_wavelength c" and ij: "i < j" "j < n"
    for i j
  proof -
    have nonneg: "0 \<le> rnd x" if "0 \<le> x" for x
      using mono zero that by metis
    have "0 \<le> rnd (max_wavelength c - min_wavelength c)"
      using ordered by (intro nonneg) simp
    moreover have "0 \<le> rnd (of_int (spectral_rays c))"
      using R by (intro nonneg) simp
    ultimately have "0 \<le> rnd (max_wavelength c - min_wavelength c) / rnd (of_int (spectral_rays c))"
      by (rule divide_nonneg_nonneg)
    then have d_nonneg: "0 \<le> d"
      unfolding d_def by (rule nonneg)
    have "real (i + 1) \<le> real j"
      using ij(1) by simp
    then have "rnd (real (i + 1)) \<le> rnd (real j)"
      using mono by blast
    then have "d * rnd (real (i + 1)) \<le> d * rnd (real j)"
      using d_nonneg by (rule mult_left_mono)
    then have "rnd (d * rnd (real (i + 1))) \<le> rnd (d * rnd (real j))"
      using mono by blast
    then have "min_wavelength c + rnd (d * rnd (real (i + 1)))
                 \<le> min_wavelength c + rnd (d * rnd (real j))"
      by simp
    then have "bound (i + 1) \<le> bound j"
      unfolding bound_def using mono by blast
    moreover have "i < n"
      using ij by simp
    ultimately show ?thesis
      using nth [of i] nth [OF ij(2)] by (simp add: ch_min_def ch_max_def)
  qed
  show ?thesis
  proof (intro exI [of _ chs] conjI allI impI)
    show "calc_wvl_channel_config rnd c = Inr chs"
      by (rule cfg)
    show "int (length chs) = spectral_rays c"
      using len n_int by simp
    show "ch_samples (chs ! i) = spectral_samples c" if "i < length chs" for i
      using that len samples by simp
    show "ch_max (chs ! i) = ch_min (chs ! Suc i)" if "Suc i < length chs" for i
      using that len contiguous by simp
    show "ch_max (chs ! i) \<le> ch_min (chs ! j)"
      if "(\<forall>x y. x \<le> y \<longrightarrow> rnd x \<le> rnd y) \<and> rnd 0 = 0
            \<and> min_wavelength c \<le> max_wavelength c"
        and "i < j \<and> j < length chs"
      for i j
      using that len disjoint [of i j] by simp
  qed
qed

lemma plan_in_exact_arithmetic:
  assumes R: "1 \<le> spectral_rays c"
  shows "\<exists>chs. calc_wvl_channel_config exact c = Inr chs
           \<and> (\<forall>i < length chs.
                 ch_max (chs ! i) - ch_min (chs ! i)
                   = (max_wavelength c - min_wavelength c) / of_int (spectral_rays c))
           \<and> ch_min (chs ! 0) = min_wavelength c
           \<and> ch_max (chs ! (length chs - 1)) = max_wavelength c"
proof -
  define n where "n = nat (spectral_rays c)"
  define d where "d = (max_wavelength c - min_wavelength c) / of_int (spectral_rays c)"
  define chs where
    "chs = map (\<lambda>index. (min_wavelength c + d * of_nat index,
                         min_wavelength c + d * of_nat (index + 1),
                         spectral_samples c)) [0..<n]"
  have n_pos: "0 < n" and n_int: "int n = spectral_rays c"
    using R by (simp_all add: n_def)
  have "calc_wvl_channel_config exact c =
          Inr (map (\<lambda>index.
                      (exact (min_wavelength c
                         + exact (exact (exact (max_wavelength c - min_wavelength c)
                                       / exact (of_int (spectral_rays c))) * exact (of_nat index))),
                       exact (min_wavelength c
                         + exact (exact (exact (max_wavelength c - min_wavelength c)
                                       / exact (of_int (spectral_rays c))) * exact (of_nat (index + 1)))),
                       spectral_samples c))
                   [0..<nat (spectral_rays c)])"
    using R by (intro calc_wvl_channel_config_Inr) simp
  then have cfg: "calc_wvl_channel_config exact c = Inr chs"
    unfolding exact_def chs_def d_def n_def .
  have len: "length chs = n"
    by (simp add: chs_def)
  have nth: "chs ! i = (min_wavelength c + d * real i,
                        min_wavelength c + d * (real i + 1), spectral_samples c)"
    if "i < n" for i
    using that by (simp add: chs_def add.commute)
  have width: "ch_max (chs ! i) - ch_min (chs ! i) = d" if "i < n" for i
    using nth [OF that] by (simp add: ch_min_def ch_max_def algebra_simps)
  have first: "ch_min (chs ! 0) = min_wavelength c"
    using nth [OF n_pos] by (simp add: ch_min_def)
  have "real n = of_int (spectral_rays c)"
    using n_int by (metis of_int_of_nat_eq)
  then have dn: "d * real n = max_wavelength c - min_wavelength c"
    using R by (simp add: d_def)
  have "n - 1 < n"
    using n_pos by simp
  then have "ch_max (chs ! (n - 1)) = min_wavelength c + d * (real (n - 1) + 1)"
    using nth [of "n - 1"] by (simp add: ch_max_def)
  also have "real (n - 1) + 1 = real n"
    using n_pos by (simp add: of_nat_diff)
  finally have last: "ch_max (chs ! (n - 1)) = max_wavelength c"
    using dn by simp
  show ?thesis
    using cfg len width first last
    unfolding d_def by (intro exI [of _ chs]) simp
qed

lemma unit_plan_length: "length (channel_plan double_round unit_camera) = 49"
  by (simp add: channel_plan_def calc_wvl_channel_config_def unit_camera_def demo_camera_def
      py_range_def Let_def)

lemma unit_plan_last:
  "ch_max (channel_plan double_round unit_camera ! 48) =
     double_round (0 + double_round (double_round (double_round (1 - 0) / double_round (of_int 49))
        * double_round (of_nat (48 + 1))))"
  by (simp add: channel_plan_def calc_wvl_channel_config_def unit_camera_def demo_camera_def
      py_range_def Let_def ch_max_def)

lemma unit_last_value:
  "double_round (0 + double_round (double_round (double_round (1 - 0) / double_round (of_int 49))
        * double_round (of_nat (48 + 1)))) = 9007199254740991 / 9007199254740992"
  by code_simp

text \<open>
  Claim C6, as the source has it. For a channel count \<open>R \<ge> 1\<close> the planner returns, in
  any float arithmetic, exactly \<open>R\<close> channels that each carry \<open>spectral_samples\<close>, and each
  channel ends at the very value at which the next one starts. Where the rounding is
  monotone and keeps zero, as rounding to the nearest double is, and
  \<open>min_wavelength \<le> max_wavelength\<close>, an earlier channel never reaches past the start of a
  later one. In exact arithmetic every channel has the width
  \<open>(max_wavelength - min_wavelength) / R\<close>, the first starts at \<open>min_wavelength\<close> and the last
  ends at \<open>max_wavelength\<close>.
\<close>

theorem channel_plan_partition:
  assumes "1 \<le> spectral_rays c"
  shows "(\<exists>chs. calc_wvl_channel_config rnd c = Inr chs
           \<and> int (length chs) = spectral_rays c
           \<and> (\<forall>i < length chs. ch_samples (chs ! i) = spectral_samples c)
           \<and> (\<forall>i. Suc i < length chs \<longrightarrow> ch_max (chs ! i) = ch_min (chs ! Suc i))
           \<and> ((\<forall>x y. x \<le> y \<longrightarrow> rnd x \<le> rnd y) \<and> rnd 0 = 0
                 \<and> min_wavelength c \<le> max_wavelength c \<longrightarrow>
               (\<forall>i j. i < j \<and> j < length chs \<longrightarrow> ch_max (chs ! i) \<le> ch_min (chs ! j))))
       \<and> (\<exists>chs. calc_wvl_channel_config exact c = Inr chs
             \<and> (\<forall>i < length chs.
                   ch_max (chs ! i) - ch_min (chs ! i)
                     = (max_wavelength c - min_wavelength c) / of_int (spectral_rays c))
             \<and> ch_min (chs ! 0) = min_wavelength c
             \<and> ch_max (chs ! (length chs - 1)) = max_wavelength c)"
  using plan_in_any_arithmetic [OF assms, of rnd] plan_in_exact_arithmetic [OF assms]
  by (rule conjI)

theorem channel_plan_partition_witness:
  "1 \<le> spectral_rays unit_camera
   \<and> exact 0 = 0
   \<and> min_wavelength unit_camera \<le> max_wavelength unit_camera
   \<and> (\<exists>chs. calc_wvl_channel_config double_round unit_camera = Inr chs \<and> length chs = 49
        \<and> ch_samples (chs ! 48) = 20 \<and> ch_max (chs ! 0) = ch_min (chs ! 1))
   \<and> (\<exists>chs. calc_wvl_channel_config exact unit_camera = Inr chs \<and> length chs = 49
        \<and> ch_max (chs ! 0) \<le> ch_min (chs ! 2)
        \<and> ch_max (chs ! 0) - ch_min (chs ! 0) = 1 / 49
        \<and> ch_min (chs ! 0) = 0 \<and> ch_max (chs ! 48) = 1)"
proof -
  have R: "1 \<le> spectral_rays unit_camera"
    and ordered: "min_wavelength unit_camera \<le> max_wavelength unit_camera"
    and attrs: "spectral_rays unit_camera = 49" "min_wavelength unit_camera = 0"
      "max_wavelength unit_camera = 1" "spectral_samples unit_camera = 20"
    by (simp_all add: unit_camera_def demo_camera_def)
  have mono: "\<forall>x y. x \<le> y \<longrightarrow> exact x \<le> exact y" and zero: "exact 0 = 0"
    by (simp_all add: exact_def)
  obtain chs where chs: "calc_wvl_channel_config double_round unit_camera = Inr chs"
    "int (length chs) = spectral_rays unit_camera"
    "\<forall>i < length chs. ch_samples (chs ! i) = spectral_samples unit_camera"
    "\<forall>i. Suc i < length chs \<longrightarrow> ch_max (chs ! i) = ch_min (chs ! Suc i)"
    using channel_plan_partition [OF R, of double_round] by blast
  have len: "length chs = 49"
    using chs(2) attrs by simp
  have samples: "ch_samples (chs ! 48) = 20"
    using chs(3) len attrs by simp
  have adjacent: "ch_max (chs ! 0) = ch_min (chs ! 1)"
    using chs(4) len by simp
  obtain xs where xs: "calc_wvl_channel_config exact unit_camera = Inr xs"
    "int (length xs) = spectral_rays unit_camera"
    "\<forall>i j. i < j \<and> j < length xs \<longrightarrow> ch_max (xs ! i) \<le> ch_min (xs ! j)"
    and ys: "\<exists>ys. calc_wvl_channel_config exact unit_camera = Inr ys
        \<and> (\<forall>i < length ys.
              ch_max (ys ! i) - ch_min (ys ! i)
                = (max_wavelength unit_camera - min_wavelength unit_camera)
                    / of_int (spectral_rays unit_camera))
        \<and> ch_min (ys ! 0) = min_wavelength unit_camera
        \<and> ch_max (ys ! (length ys - 1)) = max_wavelength unit_camera"
    using channel_plan_partition [OF R, of exact] mono zero ordered by blast
  have len_xs: "length xs = 49"
    using xs(2) attrs by simp
  have apart: "ch_max (xs ! 0) \<le> ch_min (xs ! 2)"
    using xs(3) len_xs by simp
  obtain ys where ys_plan: "calc_wvl_channel_config exact unit_camera = Inr ys"
    and ys_width: "\<forall>i < length ys.
              ch_max (ys ! i) - ch_min (ys ! i)
                = (max_wavelength unit_camera - min_wavelength unit_camera)
                    / of_int (spectral_rays unit_camera)"
    and ys_first: "ch_min (ys ! 0) = min_wavelength unit_camera"
    and ys_last: "ch_max (ys ! (length ys - 1)) = max_wavelength unit_camera"
    using ys by blast
  have same: "ys = xs"
    using ys_plan xs(1) by simp
  have "(0 :: nat) < length xs"
    using len_xs by simp
  then have "ch_max (xs ! 0) - ch_min (xs ! 0)
               = (max_wavelength unit_camera - min_wavelength unit_camera)
                   / of_int (spectral_rays unit_camera)"
    using ys_width same by blast
  then have width: "ch_max (xs ! 0) - ch_min (xs ! 0) = 1 / 49"
    by (simp only: attrs) simp
  have first: "ch_min (xs ! 0) = 0"
    using ys_first same attrs by simp
  have last: "ch_max (xs ! 48) = 1"
    using ys_last same len_xs attrs by simp
  note exact_plan = width first last
  show ?thesis
    using R zero ordered chs(1) len samples adjacent xs(1) len_xs apart exact_plan
    by blast
qed

text \<open>
  Claim C6 as stated fails in the arithmetic of the code. For the range \<open>[0, 1]\<close> and 49
  channels the width is the double nearest to \<open>1 / 49\<close>, and the last channel ends at the
  double nearest to 49 times that width, which is \<open>1 - 1 / 2 ^ 53\<close> and not the
  \<open>max_wavelength\<close> of \<open>1\<close>.
\<close>

theorem last_channel_misses_max_wavelength:
  "max_wavelength unit_camera = 1
   \<and> length (channel_plan double_round unit_camera) = 49
   \<and> ch_max (channel_plan double_round unit_camera ! 48)
       = 9007199254740991 / 9007199254740992"
  using unit_plan_length unit_last_value
  by (simp only: unit_plan_last) (simp add: unit_camera_def demo_camera_def)

section \<open>Properties of construction\<close>

text \<open>
  Claim C7, as the source has it. The constructor checks none of \<open>spectral_rays\<close>,
  \<open>pixel_samples\<close> and \<open>process_count\<close>: for every argument combination it returns a
  camera that stores the three values unchanged.
\<close>

theorem Camera_init_stores_arguments:
  "\<exists>c. Camera_init px sens ss sr ps pc par = Inr c
       \<and> spectral_rays c = sr \<and> pixel_samples c = ps \<and> process_count c = pc"
  by (simp add: Camera_init_def)

text \<open>
  Claim C7 as stated fails: with a channel count, a sample count and a worker count of
  zero the constructor returns a camera.
\<close>

theorem Camera_init_zero_counts_accepted:
  "Camera_init (2, 2) 1 20 0 0 0 True =
     Inr \<lparr> spectral_rays = 0, spectral_samples = 20, min_wavelength = 375, max_wavelength = 740,
           display_progress = True, process_count = 0, pixels = (2, 2), sensitivity = 1,
           pixel_samples = 0, accumulate = False, accumulated_samples = 0,
           xyz_frame = zeros 2 2, frame = zeros 2 2, root_is_World = True \<rparr>"
  by (simp add: Camera_init_def)

lemma demo_camera_is_built: "Camera_init (2, 2) 1 20 1 1 1 True = Inr demo_camera"
  by (simp add: Camera_init_def demo_camera_def)

section \<open>Properties of \<open>observe\<close>\<close>

lemma start_statistics_cases:
  "start_statistics c =
     (if fst (pixels c) < 2 then IndexError
      else if 0 < snd (pixels c) then TypeError else AttributeError)"
  by (auto simp: start_statistics_def pixels_row_def)

lemma reset_frames_cases:
  "reset_frames c = (if fst (pixels c) < 2 then IndexError else TypeError)"
  by (auto simp: reset_frames_def pixels_row_def)

lemma engines_raise_alike: "observe_parallel e c chs = observe_single e c chs"
  by (simp add: observe_parallel_def observe_single_def)

lemma observe_raises: "\<exists>err. observe e c = (Raised err, c)"
  by (simp add: observe_def split: sum.splits option.splits)


lemma observe_never_completes: "fst (observe e c) \<noteq> Done"
  using observe_raises [of e c] by auto

lemma observe_unconnected:
  "\<not> root_is_World c \<Longrightarrow> observe e c = (Raised TypeError, c)"
  by (simp add: observe_def)

lemma observe_without_accumulate:
  "root_is_World c \<Longrightarrow> \<not> accumulate c \<Longrightarrow> observe e c = (Raised (reset_frames c), c)"
  by (simp add: observe_def)

lemma observe_progressive:
  assumes "root_is_World c" and "accumulate c" and "spectral_rays c \<noteq> 0"
  shows "observe e c =
           (case rebuild_pixels e c of
              Some err \<Rightarrow> (Raised err, c)
            | None \<Rightarrow>
                (case start_display e c of
                   Some err \<Rightarrow> (Raised err, c)
                 | None \<Rightarrow> (Raised (start_statistics c), c)))"
  using assms
  by (simp add: observe_def calc_wvl_channel_config_def Let_def observe_single_def
      observe_parallel_def split: option.splits)


lemma setup_pixel_config_raises:
  "0 < snd (pixels c) \<Longrightarrow> \<exists>err. setup_pixel_config empty_truth to_root c = Inl err"
  by (simp add: setup_pixel_config_def)

text \<open>
  Claim C1 against the source. A progressive pass on the camera of two by two pixels folds
  no sample into the frame buffer. On \<open>Camera\<close> itself the call ends at the geometry hook of
  line 97 with \<open>NotImplementedError\<close>; in a derived class that implements the hook it ends
  in \<open>_start_statistics\<close> at line 314 with \<open>TypeError\<close>. Either way the camera is left as it
  was: every cell of the frame buffer is still zero and the counter is still 0, where the
  weighted mean of the samples of the pass was claimed.
\<close>

theorem progressive_pass_folds_no_sample:
  "observe base_env progressive_camera = (Raised NotImplementedError, progressive_camera)
   \<and> observe demo_env progressive_camera = (Raised TypeError, progressive_camera)
   \<and> xyz_frame progressive_camera = zeros 2 2
   \<and> accumulated_samples progressive_camera = 0"
  by (simp add: observe_progressive base_env_def demo_env_def progressive_camera_def
      demo_camera_def Camera_rebuild_pixels_def start_display_def start_statistics_cases)

text \<open>
  Claim C2 against the source. A pass computes no weight. On the camera as constructed the
  call ends at line 89 with \<open>TypeError\<close>. On a progressive camera with the prior counter 7
  and the prior cells \<open>(1, 2, 3)\<close> the sequential engine ends in \<open>_start_statistics\<close> with
  \<open>TypeError\<close>, before line 115: the cells are not scaled by \<open>7 / 8\<close>, nothing is added, and
  the counter stays at 7.
\<close>

theorem pass_applies_no_weights:
  "observe demo_env demo_camera = (Raised TypeError, demo_camera)
   \<and> observe_single demo_env dirty_progressive_camera
        (channel_plan double_round dirty_progressive_camera) = TypeError
   \<and> observe demo_env dirty_progressive_camera = (Raised TypeError, dirty_progressive_camera)
   \<and> xyz_frame dirty_progressive_camera = replicate 2 (replicate 2 (1, 2, 3))
   \<and> accumulated_samples dirty_progressive_camera = 7"
  by (simp add: observe_progressive observe_without_accumulate demo_env_def
      dirty_progressive_camera_def dirty_camera_def demo_camera_def observe_single_def
      start_display_def start_statistics_cases reset_frames_cases)



text \<open>
  Claim C4 against the source. No pixel coordinate is passed to the pixel-sampling
  contract. On the camera of two by two pixels, planned in one channel or in four, the
  sequential engine and the worker-pool engine both end in \<open>_start_statistics\<close> with
  \<open>TypeError\<close>, before the loops over the pixels and before the producer is started; the
  producer itself would end with \<open>TypeError\<close>, having put no task.
\<close>

theorem no_pixel_is_sampled:
  "observe_single demo_env progressive_camera (channel_plan double_round progressive_camera)
     = TypeError
   \<and> observe_parallel demo_env (progressive_camera\<lparr>process_count := 2\<rparr>)
        (channel_plan double_round progressive_camera) = TypeError
   \<and> observe demo_env (progressive_camera\<lparr>spectral_rays := 4\<rparr>)
       = (Raised TypeError, progressive_camera\<lparr>spectral_rays := 4\<rparr>)
   \<and> producer progressive_camera = (TypeError, [])"
  by (simp add: observe_progressive demo_env_def progressive_camera_def demo_camera_def
      observe_single_def observe_parallel_def start_display_def start_statistics_cases
      producer_def)

text \<open>
  Claim C5 against the source. With two workers configured, the call on the camera of two
  by two pixels ends in \<open>_start_statistics\<close> with \<open>TypeError\<close> before the worker-pool engine
  creates a queue: no worker is started, no result is received and no sentinel is put. A
  worker that did take a pixel would end with \<open>AttributeError\<close>, putting no result and
  taking no sentinel.
\<close>

theorem worker_pool_never_starts:
  "observe demo_env (progressive_camera\<lparr>process_count := 2\<rparr>)
     = (Raised TypeError, progressive_camera\<lparr>process_count := 2\<rparr>)
   \<and> worker [Pixel (0, 0), Sentinel] = Died AttributeError"
  by (simp add: observe_progressive demo_env_def progressive_camera_def demo_camera_def
      start_display_def start_statistics_cases)

text \<open>
  Claim C8 against the source. With progressive accumulation disabled, the call on the
  camera as constructed and the call on the same camera with the prior cells \<open>(1, 2, 3)\<close> and
  the prior counter 7 both end at line 89 with \<open>TypeError\<close>, before anything is assigned.
  The first leaves zero cells and the counter 0, the second the cells \<open>(1, 2, 3)\<close> and the
  counter 7: the result depends on the prior state.
\<close>

theorem reset_keeps_prior_state:
  "accumulate demo_camera = False \<and> accumulate dirty_camera = False
   \<and> fst (observe demo_env demo_camera) = Raised TypeError
   \<and> fst (observe demo_env dirty_camera) = Raised TypeError
   \<and> xyz_frame (snd (observe demo_env demo_camera)) = zeros 2 2
   \<and> accumulated_samples (snd (observe demo_env demo_camera)) = 0
   \<and> xyz_frame (snd (observe demo_env dirty_camera)) = replicate 2 (replicate 2 (1, 2, 3))
   \<and> accumulated_samples (snd (observe demo_env dirty_camera)) = 7"
  by (simp add: observe_without_accumulate dirty_camera_def demo_camera_def reset_frames_cases)

text \<open>
  Claim C9 against the source. With progressive accumulation disabled and the hook of
  \<open>Camera\<close> itself, the call on a camera with prior cells \<open>(1, 2, 3)\<close> and prior counter 7 ends
  at line 89, with \<open>TypeError\<close> for two by two pixels and with \<open>IndexError\<close> for one pixel.
  The hook of line 97 is not reached, and the failed call leaves the pre-call state, not
  the reset state: the cells are still \<open>(1, 2, 3)\<close> and the counter is still 7.
\<close>

theorem failed_call_keeps_pre_call_state:
  "observe base_env dirty_camera = (Raised TypeError, dirty_camera)
   \<and> xyz_frame dirty_camera = replicate 2 (replicate 2 (1, 2, 3))
   \<and> accumulated_samples dirty_camera = 7
   \<and> observe base_env single_pixel_camera = (Raised IndexError, single_pixel_camera)
   \<and> xyz_frame single_pixel_camera = [[(1, 2, 3)]]
   \<and> accumulated_samples single_pixel_camera = 7"
  by (simp add: observe_without_accumulate dirty_camera_def single_pixel_camera_def
      demo_camera_def reset_frames_cases)

text \<open>
  Claim C10 against the source. The constructor of the pinhole camera raises \<open>TypeError\<close>
  for an image of one pixel, so there is no object to set up. On the attributes that the
  constructor was to assign, the setup raises \<open>TypeError\<close> at line 397 for the image of one
  pixel and at line 395 for an image of 512 by 512 pixels: it returns no tuple.
\<close>

theorem pinhole_setup_returns_no_tuple:
  "PinholeCamera_init (1, 1) 45 1 20 1 100 False 1 True = Inl TypeError
   \<and> setup_pixel_config None id demo_pinhole = Inl TypeError
   \<and> setup_pixel_config None id (demo_pinhole\<lparr>pixels := (512, 512)\<rparr>) = Inl TypeError"
  by (simp add: PinholeCamera_init_def setup_pixel_config_def demo_pinhole_def)

end
